theory Spec2Isabelle
  imports Main
begin

section \<open>Strings of the dashboard\<close>

text \<open>
  A JavaScript string is modelled as a \<open>string\<close> whose characters are the code units
  below 256. Among these, \<open>String.prototype.trim\<close> removes tab, line feed, vertical tab,
  form feed, carriage return, space and the no-break space (code unit 0xA0).
\<close>

definition is_white_space :: "char \<Rightarrow> bool" where
  "is_white_space c =
     (c = CHR 0x09 \<or> c = CHR 0x0A \<or> c = CHR 0x0B \<or> c = CHR 0x0C \<or> c = CHR 0x0D
      \<or> c = CHR 0x20 \<or> c = CHR 0xA0)"

definition trim :: "string \<Rightarrow> string" where
  "trim s = rev (dropWhile is_white_space (rev (dropWhile is_white_space s)))"

text \<open>The expression \<open>x || ''\<close> on an optional string field.\<close>

fun or_empty :: "string option \<Rightarrow> string" where
  "or_empty None = []"
| "or_empty (Some s) = s"

text \<open>Decimal rendering of a number inside a template literal.\<close>

definition digit_char :: "nat \<Rightarrow> char" where
  "digit_char d = char_of (48 + d)"

fun show_nat :: "nat \<Rightarrow> string" where
  "show_nat n = (if n < 10 then [digit_char n] else show_nat (n div 10) @ [digit_char (n mod 10)])"

declare show_nat.simps [simp del]

text \<open>
  \<open>String.prototype.toUpperCase\<close> on one code unit below 256, given as the code units
  of the result, since some of them lie above 255: the letters a--z and the Latin-1
  letters 0xE0--0xFE other than the division sign 0xF7 move down by 32, the micro sign
  0xB5 becomes U+039C, the sharp s 0xDF becomes the two letters SS, 0xFF becomes U+0178,
  and every other code unit is kept.
\<close>

definition upper_units :: "char \<Rightarrow> nat list" where
  "upper_units c =
     (let n = (of_char c :: nat) in
      if 97 \<le> n \<and> n \<le> 122 then [n - 32]
      else if n = 181 then [924]
      else if n = 223 then [83, 83]
      else if 224 \<le> n \<and> n \<le> 254 \<and> n \<noteq> 247 then [n - 32]
      else if n = 255 then [376]
      else [n])"

text \<open>Lower-casing of the ASCII letters, the only letters a host name has.\<close>

definition to_lower_char :: "char \<Rightarrow> char" where
  "to_lower_char c =
     (let n = (of_char c :: nat) in if 65 \<le> n \<and> n \<le> 90 then char_of (n + 32) else c)"

definition toUpperCase :: "string \<Rightarrow> nat list" where
  "toUpperCase s = concat (map upper_units s)"

section \<open>Data model\<close>

text \<open>
  The interface \<open>ScanResult\<close>: one object type with eight optional string fields. The
  declared type of \<open>severity\<close> is the union of the four literals listed in
  \<open>declared_severities\<close>; data parsed from a response is not checked against it.
\<close>

record ScanResult =
  port :: "string option"
  state :: "string option"
  service :: "string option"
  severity :: "string option"
  url :: "string option"
  description :: "string option"
  endpoint :: "string option"
  title :: "string option"

definition declared_severities :: "string list" where
  "declared_severities = [''low'', ''medium'', ''high'', ''critical'']"

definition no_fields :: ScanResult where
  "no_fields = \<lparr>port = None, state = None, service = None, severity = None, url = None,
     description = None, endpoint = None, title = None\<rparr>"

datatype field = Port | State | Service | Severity | Url | Description | Endpoint | Title

definition populated :: "ScanResult \<Rightarrow> field set" where
  "populated r =
     (if port r = None then {} else {Port}) \<union> (if state r = None then {} else {State})
     \<union> (if service r = None then {} else {Service})
     \<union> (if severity r = None then {} else {Severity})
     \<union> (if url r = None then {} else {Url})
     \<union> (if description r = None then {} else {Description})
     \<union> (if endpoint r = None then {} else {Endpoint})
     \<union> (if title r = None then {} else {Title})"

text \<open>The value of the state variable \<open>lastScanInfo\<close> when it is not null.\<close>

record ScanInfo =
  info_type :: string
  info_target :: string
  info_timestamp :: nat

text \<open>The state variables of the component \<open>Index\<close>.\<close>

record ui_state =
  target :: string
  scanType :: string
  isScanning :: bool
  scanResults :: "ScanResult list"
  lastScanInfo :: "ScanInfo option"
  backendConnected :: bool

definition initial_state :: ui_state where
  "initial_state = \<lparr>target = [], scanType = ''nmap'', isScanning = False, scanResults = [],
     lastScanInfo = None, backendConnected = False\<rparr>"

section \<open>The backend call and its outcomes\<close>

text \<open>
  The arguments of \<open>fetch\<close>. The body is the object handed to \<open>JSON.stringify\<close>, as
  its key--value pairs in order.
\<close>

record http_request =
  req_url :: string
  req_method :: string
  req_headers :: "(string \<times> string) list"
  req_body :: "(string \<times> string) list"

text \<open>
  What \<open>response.json()\<close> yields. \<open>JsonNull\<close> is the JSON value null, on which the
  property access \<open>data.result\<close> throws. Any other value is \<open>JsonValue res other\<close>:
  \<open>res\<close> is its \<open>result\<close> property (\<open>None\<close> when the property is absent or falsy,
  otherwise the array of findings), and \<open>other\<close> holds the remaining top-level
  properties, none of which the component reads. A truthy \<open>result\<close> that is not an array
  of findings, which the state variable's declared type \<open>ScanResult[]\<close> excludes, has
  no counterpart here.
\<close>

datatype json_data = JsonNull | JsonValue "ScanResult list option" "(string \<times> string) list"

datatype response_body = Unparseable | Parsed json_data

text \<open>
  How the awaited \<open>fetch\<close> settles: rejected by a network failure, rejected because the
  ten-second timer aborted it, or resolved with a response of some status and body.
\<close>

datatype fetch_outcome = NetworkFailure | Aborted | Response nat response_body

text \<open>\<open>response.ok\<close>: the status is in the range 200--299.\<close>

definition response_ok :: "nat \<Rightarrow> bool" where
  "response_ok status = (200 \<le> status \<and> status \<le> 299)"

text \<open>The errors that can be thrown inside the try block.\<close>

datatype js_error = FetchTypeError | AbortError | HttpError nat | JsonSyntaxError | NullTypeError

text \<open>
  The surroundings of one run of \<open>handleScan\<close>: the build mode, the clock read by
  \<open>new Date()\<close>, and the backend as seen through \<open>fetch\<close>.
\<close>

record env =
  node_env :: string
  clock :: nat
  backend :: "http_request \<Rightarrow> fetch_outcome"

definition BACKEND_URL :: "string \<Rightarrow> string" where
  "BACKEND_URL mode =
     (if mode = ''production'' then ''https://your-backend-domain.com''
      else ''http://localhost:5000'')"

record toast =
  toast_title :: string
  toast_description :: string
  toast_variant :: "string option"

datatype effect = Fetch http_request | Toast toast | ConsoleError string js_error

text \<open>The state and the effects so far, threaded through the statements of a handler.\<close>

record run =
  st :: ui_state
  log :: "effect list"

definition emit :: "effect \<Rightarrow> run \<Rightarrow> run" where
  "emit e r = r\<lparr>log := log r @ [e]\<rparr>"

definition requests :: "run \<Rightarrow> http_request list" where
  "requests r = concat (map (\<lambda>e. case e of Fetch q \<Rightarrow> [q] | _ \<Rightarrow> []) (log r))"

definition toasts :: "run \<Rightarrow> toast list" where
  "toasts r = concat (map (\<lambda>e. case e of Toast t \<Rightarrow> [t] | _ \<Rightarrow> []) (log r))"

section \<open>generateDemoResults\<close>

definition generateDemoResults :: "string \<Rightarrow> ScanResult list" where
  "generateDemoResults type =
     (if type = ''nmap'' then
        [no_fields\<lparr>port := Some ''22'', state := Some ''open'', service := Some ''ssh''\<rparr>,
         no_fields\<lparr>port := Some ''80'', state := Some ''open'', service := Some ''http''\<rparr>,
         no_fields\<lparr>port := Some ''443'', state := Some ''open'', service := Some ''https''\<rparr>,
         no_fields\<lparr>port := Some ''3306'', state := Some ''filtered'', service := Some ''mysql''\<rparr>]
      else if type = ''nuclei'' then
        [no_fields\<lparr>title := Some ''SSL Certificate Expiry Warning'',
           severity := Some ''medium'',
           url := Some ''https://example.com'',
           description := Some ''SSL certificate expires within 30 days''\<rparr>,
         no_fields\<lparr>title := Some ''Directory Listing Enabled'',
           severity := Some ''low'',
           url := Some ''https://example.com/assets/'',
           description := Some ''Directory listing is enabled and may expose sensitive files''\<rparr>,
         no_fields\<lparr>title := Some ''Missing Security Headers'',
           severity := Some ''medium'',
           url := Some ''https://example.com'',
           description := Some ''Missing X-Frame-Options header''\<rparr>]
      else if type = ''nikto'' then
        [no_fields\<lparr>description := Some ''Server leaks inodes via ETags, header found with file /, inode: 12345, size: 4096, mtime: Mon Dec 25 10:23:45 2023'',
           endpoint := Some ''/''\<rparr>,
         no_fields\<lparr>description := Some ''The anti-clickjacking X-Frame-Options header is not present.'',
           endpoint := Some ''/''\<rparr>,
         no_fields\<lparr>description := Some ''Web server returns a valid response with junk HTTP methods, this may cause false positives.'',
           endpoint := Some ''/''\<rparr>]
      else [])"

section \<open>handleScan\<close>

definition setIsScanning :: "bool \<Rightarrow> run \<Rightarrow> run" where
  "setIsScanning b r = r\<lparr>st := (st r)\<lparr>isScanning := b\<rparr>\<rparr>"

definition setScanResults :: "ScanResult list \<Rightarrow> run \<Rightarrow> run" where
  "setScanResults rs r = r\<lparr>st := (st r)\<lparr>scanResults := rs\<rparr>\<rparr>"

definition setBackendConnected :: "bool \<Rightarrow> run \<Rightarrow> run" where
  "setBackendConnected b r = r\<lparr>st := (st r)\<lparr>backendConnected := b\<rparr>\<rparr>"

definition setLastScanInfo :: "ScanInfo option \<Rightarrow> run \<Rightarrow> run" where
  "setLastScanInfo i r = r\<lparr>st := (st r)\<lparr>lastScanInfo := i\<rparr>\<rparr>"

text \<open>
  The request built by \<open>handleScan\<close>; \<open>c\<close> is the state captured by the closure, from
  which \<open>target\<close> and \<open>scanType\<close> are read.
\<close>

definition scan_request :: "env \<Rightarrow> ui_state \<Rightarrow> http_request" where
  "scan_request e c =
     \<lparr>req_url = BACKEND_URL (node_env e) @ ''/scan'',
      req_method = ''POST'',
      req_headers = [(''Content-Type'', ''application/json'')],
      req_body = [(''target'', trim (target c)), (''type'', scanType c)]\<rparr>"

text \<open>
  The try block. It returns the error thrown, if any, with the state and effects reached
  at that point. Every throw comes before the first state update of the block: a rejected
  fetch, the explicit throw on a response that is not ok, a body that is not JSON, and
  the property access on null.
\<close>

definition try_block :: "env \<Rightarrow> ui_state \<Rightarrow> run \<Rightarrow> js_error option \<times> run" where
  "try_block e c r =
     (let q = scan_request e c; r1 = emit (Fetch q) r in
      case backend e q of
        NetworkFailure \<Rightarrow> (Some FetchTypeError, r1)
      | Aborted \<Rightarrow> (Some AbortError, r1)
      | Response status body \<Rightarrow>
          if \<not> response_ok status then (Some (HttpError status), r1)
          else (case body of
              Unparseable \<Rightarrow> (Some JsonSyntaxError, r1)
            | Parsed JsonNull \<Rightarrow> (Some NullTypeError, r1)
            | Parsed (JsonValue res other) \<Rightarrow>
                (None,
                 emit (Toast \<lparr>toast_title = ''Scan completed'',
                     toast_description =
                       ''Found '' @ show_nat (case res of None \<Rightarrow> 0 | Some rs \<Rightarrow> length rs)
                         @ '' results'',
                     toast_variant = None\<rparr>)
                   (setLastScanInfo
                      (Some \<lparr>info_type = scanType c, info_target = trim (target c),
                         info_timestamp = clock e\<rparr>)
                      (setBackendConnected True
                         (setScanResults (case res of None \<Rightarrow> [] | Some rs \<Rightarrow> rs) r1))))))"

text \<open>The catch block. It contains no throw, so it hands no error on.\<close>

definition catch_block :: "env \<Rightarrow> ui_state \<Rightarrow> js_error \<Rightarrow> run \<Rightarrow> js_error option \<times> run" where
  "catch_block e c err r =
     (None,
      setLastScanInfo
        (Some \<lparr>info_type = scanType c, info_target = trim (target c),
           info_timestamp = clock e\<rparr>)
        (setBackendConnected False
           (setScanResults (generateDemoResults (scanType c))
              (emit (Toast \<lparr>toast_title = ''Backend unavailable'',
                   toast_description = ''Using demo data. Connect your backend for real scans.'',
                   toast_variant = Some ''destructive''\<rparr>)
                 (emit (ConsoleError ''Scan failed:'' err) r)))))"

text \<open>
  \<open>try { body } catch (error) { handler } finally { fin }\<close>: the handler runs on the
  state the body had reached when it threw, the finally block runs on every path, and
  the statement as a whole throws what the handler throws.
\<close>

definition try_catch_finally ::
  "(run \<Rightarrow> js_error option \<times> run) \<Rightarrow> (js_error \<Rightarrow> run \<Rightarrow> js_error option \<times> run)
     \<Rightarrow> (run \<Rightarrow> run) \<Rightarrow> run \<Rightarrow> js_error option \<times> run" where
  "try_catch_finally body handler fin r =
     (case body r of
        (None, r1) \<Rightarrow> (None, fin r1)
      | (Some err, r1) \<Rightarrow> (case handler err r1 of (thrown, r2) \<Rightarrow> (thrown, fin r2)))"

text \<open>
  \<open>handleScan\<close> (the first definition in the file) run from state \<open>s\<close> until its
  promise settles. The first component is the reason the promise is rejected with, if it
  is rejected; the second is the final state with the effects in order.
\<close>

definition handleScan :: "env \<Rightarrow> ui_state \<Rightarrow> js_error option \<times> run" where
  "handleScan e s =
     (if trim (target s) = [] then (None, \<lparr>st = s, log = []\<rparr>)
      else try_catch_finally (try_block e s) (catch_block e s) (setIsScanning False)
             (setScanResults [] (setIsScanning True \<lparr>st = s, log = []\<rparr>)))"

subsection \<open>The second definition in the file\<close>

text \<open>
  The file holds a second, older definition of the component after the first. Its
  \<open>handleScan\<close> has no timer, no toast and no \<open>backendConnected\<close> variable (the field
  of \<open>ui_state\<close> is carried along unchanged), and its backend URL is fixed.
\<close>

definition BACKEND_URL_2 :: string where
  "BACKEND_URL_2 = ''http://localhost:5000''"

definition scan_request_2 :: "ui_state \<Rightarrow> http_request" where
  "scan_request_2 c =
     \<lparr>req_url = BACKEND_URL_2 @ ''/scan'',
      req_method = ''POST'',
      req_headers = [(''Content-Type'', ''application/json'')],
      req_body = [(''target'', trim (target c)), (''type'', scanType c)]\<rparr>"

definition try_block_2 :: "env \<Rightarrow> ui_state \<Rightarrow> run \<Rightarrow> js_error option \<times> run" where
  "try_block_2 e c r =
     (let q = scan_request_2 c; r1 = emit (Fetch q) r in
      case backend e q of
        NetworkFailure \<Rightarrow> (Some FetchTypeError, r1)
      | Aborted \<Rightarrow> (Some AbortError, r1)
      | Response status body \<Rightarrow>
          if \<not> response_ok status then (Some (HttpError status), r1)
          else (case body of
              Unparseable \<Rightarrow> (Some JsonSyntaxError, r1)
            | Parsed JsonNull \<Rightarrow> (Some NullTypeError, r1)
            | Parsed (JsonValue res other) \<Rightarrow>
                (None,
                 setLastScanInfo
                   (Some \<lparr>info_type = scanType c, info_target = trim (target c),
                      info_timestamp = clock e\<rparr>)
                   (setScanResults (case res of None \<Rightarrow> [] | Some rs \<Rightarrow> rs) r1))))"

definition catch_block_2 :: "env \<Rightarrow> ui_state \<Rightarrow> js_error \<Rightarrow> run \<Rightarrow> js_error option \<times> run" where
  "catch_block_2 e c err r =
     (None,
      setLastScanInfo
        (Some \<lparr>info_type = scanType c, info_target = trim (target c),
           info_timestamp = clock e\<rparr>)
        (setScanResults (generateDemoResults (scanType c))
           (emit (ConsoleError ''Scan failed:'' err) r)))"

definition handleScan_2 :: "env \<Rightarrow> ui_state \<Rightarrow> js_error option \<times> run" where
  "handleScan_2 e s =
     (if trim (target s) = [] then (None, \<lparr>st = s, log = []\<rparr>)
      else try_catch_finally (try_block_2 e s) (catch_block_2 e s) (setIsScanning False)
             (setScanResults [] (setIsScanning True \<lparr>st = s, log = []\<rparr>)))"

section \<open>The form controls\<close>

text \<open>The three \<open>option\<close> elements of the scan-type select, with their values.\<close>

datatype scan_option = NmapOption | NucleiOption | NiktoOption

fun option_value :: "scan_option \<Rightarrow> string" where
  "option_value NmapOption = ''nmap''"
| "option_value NucleiOption = ''nuclei''"
| "option_value NiktoOption = ''nikto''"

text \<open>
  What the user can do: type into the target input, pick a scan type, press the scan
  button. Both inputs are disabled while \<open>isScanning\<close> holds, and the button is disabled
  as well when the trimmed target is empty. A press runs \<open>handleScan\<close> to its end in the
  surroundings given with the event.
\<close>

datatype ui_event = TargetChange string | ScanTypeChange scan_option | ScanClick env

fun ui_step :: "ui_state \<Rightarrow> ui_event \<Rightarrow> ui_state" where
  "ui_step s (TargetChange v) = (if isScanning s then s else s\<lparr>target := v\<rparr>)"
| "ui_step s (ScanTypeChange opt) =
     (if isScanning s then s else s\<lparr>scanType := option_value opt\<rparr>)"
| "ui_step s (ScanClick e) =
     (if trim (target s) = [] \<or> isScanning s then s else st (snd (handleScan e s)))"

definition run_events :: "ui_event list \<Rightarrow> ui_state" where
  "run_events es = foldl ui_step initial_state es"

section \<open>Rendering of a severity\<close>

definition getSeverityColor :: "string \<Rightarrow> string" where
  "getSeverityColor sev =
     (if sev = ''critical'' then ''bg-red-500/20 text-red-300 border-red-500/30''
      else if sev = ''high'' then ''bg-orange-500/20 text-orange-300 border-orange-500/30''
      else if sev = ''medium'' then ''bg-yellow-500/20 text-yellow-300 border-yellow-500/30''
      else if sev = ''low'' then ''bg-blue-500/20 text-blue-300 border-blue-500/30''
      else ''bg-gray-500/20 text-gray-300 border-gray-500/30'')"

text \<open>
  The severity badge of a finding in the Nuclei list: its class is computed by
  \<open>getSeverityColor(result.severity || '')\<close>, its text is
  \<open>result.severity?.toUpperCase()\<close>, given as code units and absent when the severity is.
\<close>

definition severity_badge_class :: "ScanResult \<Rightarrow> string" where
  "severity_badge_class r = getSeverityColor (or_empty (severity r))"

definition severity_badge_text :: "ScanResult \<Rightarrow> nat list option" where
  "severity_badge_text r = map_option toUpperCase (severity r)"

section \<open>The normal form the specification names\<close>

text \<open>
  Written from the specification's words, for comparison with what \<open>handleScan\<close>
  submits: the target trimmed and lower-cased.
\<close>

definition spec_normalize :: "string \<Rightarrow> string" where
  "spec_normalize raw = map to_lower_char (trim raw)"

section \<open>Outcomes of the call and concrete surroundings\<close>

text \<open>
  The outcomes on which the awaited call fails: \<open>fetch\<close> rejects (network failure or
  abort by the timer), or the response is not ok and \<open>handleScan\<close> throws on it.
\<close>

fun call_fails :: "fetch_outcome \<Rightarrow> bool" where
  "call_fails NetworkFailure = True"
| "call_fails Aborted = True"
| "call_fails (Response status body) = (\<not> response_ok status)"

text \<open>Surroundings used in the examples: a development build whose clock reads 0.\<close>

definition offline_env :: env where
  "offline_env = \<lparr>node_env = ''development'', clock = 0, backend = (\<lambda>q. NetworkFailure)\<rparr>"

definition server_error_env :: env where
  "server_error_env =
     \<lparr>node_env = ''development'', clock = 0, backend = (\<lambda>q. Response 500 Unparseable)\<rparr>"

definition answering_env :: "ScanResult list option \<Rightarrow> (string \<times> string) list \<Rightarrow> env" where
  "answering_env res other =
     \<lparr>node_env = ''development'', clock = 0,
      backend = (\<lambda>q. Response 200 (Parsed (JsonValue res other)))\<rparr>"

definition null_body_env :: env where
  "null_body_env =
     \<lparr>node_env = ''development'', clock = 0, backend = (\<lambda>q. Response 200 (Parsed JsonNull))\<rparr>"

definition not_json_env :: env where
  "not_json_env =
     \<lparr>node_env = ''development'', clock = 0, backend = (\<lambda>q. Response 200 Unparseable)\<rparr>"

definition finding_22 :: ScanResult where
  "finding_22 = no_fields\<lparr>port := Some ''22'', state := Some ''open'', service := Some ''ssh''\<rparr>"

definition finding_80 :: ScanResult where
  "finding_80 = no_fields\<lparr>port := Some ''80'', state := Some ''open'', service := Some ''http''\<rparr>"

definition mixed_finding :: ScanResult where
  "mixed_finding = no_fields\<lparr>port := Some ''22'', title := Some ''Directory Listing Enabled''\<rparr>"

section \<open>Facts about trim\<close>

lemma dropWhile_rev_fixed:
  assumes "dropWhile P xs = xs"
  shows "dropWhile P (rev (dropWhile P (rev xs))) = rev (dropWhile P (rev xs))"
proof (cases xs)
  case Nil
  then show ?thesis by simp
next
  case (Cons x ys)
  have nx: "\<not> P x" using hd_dropWhile [of P xs] assms Cons by simp
  have "dropWhile P (rev xs) = dropWhile P (rev ys @ [x])" using Cons by simp
  also have "\<dots> = (if \<forall>y\<in>set (rev ys). P y then [x] else dropWhile P (rev ys) @ [x])"
    using nx by (simp add: dropWhile_append)
  finally have "\<exists>zs. dropWhile P (rev xs) = zs @ [x]"
    by (cases "\<forall>y\<in>set (rev ys). P y") simp_all
  then obtain zs where zs: "dropWhile P (rev xs) = zs @ [x]" ..
  show ?thesis using nx by (simp add: zs)
qed

lemma trim_idem: "trim (trim s) = trim s"
proof -
  let ?a = "dropWhile is_white_space s"
  have a: "dropWhile is_white_space ?a = ?a" by (rule dropWhile_idem)
  have "dropWhile is_white_space (rev (dropWhile is_white_space (rev ?a)))
        = rev (dropWhile is_white_space (rev ?a))"
    by (rule dropWhile_rev_fixed [OF a])
  then show ?thesis by (simp add: trim_def)
qed

lemma dropWhile_all_iff: "(\<forall>x\<in>set (dropWhile P xs). P x) = (\<forall>x\<in>set xs. P x)"
  by (induction xs) auto

lemma trim_Nil_iff: "(trim s = []) = (\<forall>c\<in>set s. is_white_space c)"
  by (simp add: trim_def dropWhile_all_iff)


section \<open>Facts about handleScan and the form controls\<close>

lemmas run_defs = handleScan_def try_catch_finally_def try_block_def catch_block_def
  setIsScanning_def setScanResults_def setBackendConnected_def setLastScanInfo_def emit_def
  handleScan_2_def try_block_2_def catch_block_2_def

lemmas outcome_splits = fetch_outcome.splits response_body.splits json_data.splits

lemma handleScan_resolves: "fst (handleScan e s) = None"
  by (simp add: run_defs Let_def split: outcome_splits)

lemma handleScan_2_resolves: "fst (handleScan_2 e s) = None"
  by (simp add: run_defs Let_def split: outcome_splits)

lemma handleScan_keeps_inputs:
  "scanType (st (snd (handleScan e s))) = scanType s"
  "target (st (snd (handleScan e s))) = target s"
  by (simp_all add: run_defs Let_def split: outcome_splits)

lemma handleScan_not_scanning:
  "trim (target s) \<noteq> [] \<Longrightarrow> \<not> isScanning (st (snd (handleScan e s)))"
  by (simp add: run_defs Let_def split: outcome_splits)

lemma handleScan_2_not_scanning:
  "trim (target s) \<noteq> [] \<Longrightarrow> \<not> isScanning (st (snd (handleScan_2 e s)))"
  by (simp add: run_defs Let_def split: outcome_splits)

lemma handleScan_requests:
  "trim (target s) \<noteq> [] \<Longrightarrow> requests (snd (handleScan e s)) = [scan_request e s]"
  by (simp add: run_defs requests_def Let_def split: outcome_splits)

lemma handleScan_failure:
  assumes "trim (target s) \<noteq> []" and "call_fails (backend e (scan_request e s))"
  shows "scanResults (st (snd (handleScan e s))) = generateDemoResults (scanType s)"
    and "lastScanInfo (st (snd (handleScan e s))) =
           Some \<lparr>info_type = scanType s, info_target = trim (target s),
             info_timestamp = clock e\<rparr>"
  using assms by (auto simp: run_defs Let_def split: outcome_splits)

lemma handleScan_2_failure:
  assumes "trim (target s) \<noteq> []" and "call_fails (backend e (scan_request_2 s))"
  shows "scanResults (st (snd (handleScan_2 e s))) = generateDemoResults (scanType s)"
    and "lastScanInfo (st (snd (handleScan_2 e s))) =
           Some \<lparr>info_type = scanType s, info_target = trim (target s),
             info_timestamp = clock e\<rparr>"
  using assms by (auto simp: run_defs Let_def split: outcome_splits)

lemma handleScan_success:
  assumes "trim (target s) \<noteq> []"
    and "backend e (scan_request e s) = Response status (Parsed (JsonValue res other))"
    and "response_ok status"
  shows "st (snd (handleScan e s)) =
           s\<lparr>isScanning := False, scanResults := (case res of None \<Rightarrow> [] | Some rs \<Rightarrow> rs),
             backendConnected := True,
             lastScanInfo := Some \<lparr>info_type = scanType s, info_target = trim (target s),
               info_timestamp = clock e\<rparr>\<rparr>"
  using assms by (simp add: run_defs Let_def)

lemma handleScan_bad_body:
  assumes "trim (target s) \<noteq> []"
    and "backend e (scan_request e s) = Response status body"
    and "body = Unparseable \<or> body = Parsed JsonNull"
  shows "st (snd (handleScan e s)) =
           s\<lparr>isScanning := False, scanResults := generateDemoResults (scanType s),
             backendConnected := False,
             lastScanInfo := Some \<lparr>info_type = scanType s, info_target = trim (target s),
               info_timestamp = clock e\<rparr>\<rparr>"
  using assms by (auto simp: run_defs Let_def)

lemma generateDemoResults_nonempty:
  "type \<in> {''nmap'', ''nuclei'', ''nikto''} \<Longrightarrow> generateDemoResults type \<noteq> []"
  by (auto simp: generateDemoResults_def)

lemma ui_step_scanType:
  assumes "scanType s \<in> {''nmap'', ''nuclei'', ''nikto''}"
  shows "scanType (ui_step s ev) \<in> {''nmap'', ''nuclei'', ''nikto''}"
proof (cases ev)
  case (TargetChange v)
  with assms show ?thesis by simp
next
  case (ScanTypeChange opt)
  with assms show ?thesis by (cases opt) simp_all
next
  case (ScanClick e)
  with assms show ?thesis by (simp add: handleScan_keeps_inputs)
qed

lemma foldl_ui_step_scanType:
  "scanType s \<in> {''nmap'', ''nuclei'', ''nikto''} \<Longrightarrow>
   scanType (foldl ui_step s es) \<in> {''nmap'', ''nuclei'', ''nikto''}"
  by (induction es arbitrary: s) (simp_all add: ui_step_scanType del: ui_step.simps insert_iff)

lemma run_events_scanType: "scanType (run_events es) \<in> {''nmap'', ''nuclei'', ''nikto''}"
  unfolding run_events_def by (rule foldl_ui_step_scanType) (simp add: initial_state_def)

lemma ui_step_not_scanning: "\<not> isScanning s \<Longrightarrow> \<not> isScanning (ui_step s ev)"
  by (cases ev) (simp_all add: handleScan_not_scanning)

lemma foldl_ui_step_not_scanning: "\<not> isScanning s \<Longrightarrow> \<not> isScanning (foldl ui_step s es)"
  by (induction es arbitrary: s) (simp_all add: ui_step_not_scanning del: ui_step.simps)

lemma run_events_not_scanning: "\<not> isScanning (run_events es)"
  unfolding run_events_def by (rule foldl_ui_step_not_scanning) (simp add: initial_state_def)

lemmas trim_eval = trim_def is_white_space_def


section \<open>Facts about the demo findings\<close>

lemma populated_nmap:
  "map populated (generateDemoResults ''nmap'') = replicate 4 {Service, State, Port}"
  by (simp add: generateDemoResults_def populated_def no_fields_def numeral_eq_Suc)

lemma populated_nuclei:
  "map populated (generateDemoResults ''nuclei'') = replicate 3 {Title, Description, Url, Severity}"
  by (simp add: generateDemoResults_def populated_def no_fields_def numeral_eq_Suc)

lemma populated_nikto:
  "map populated (generateDemoResults ''nikto'') = replicate 3 {Endpoint, Description}"
  by (simp add: generateDemoResults_def populated_def no_fields_def numeral_eq_Suc)

lemma generateDemoResults_other:
  "type \<noteq> ''nmap'' \<Longrightarrow> type \<noteq> ''nuclei'' \<Longrightarrow> type \<noteq> ''nikto'' \<Longrightarrow> generateDemoResults type = []"
  by (simp add: generateDemoResults_def)

lemma in_replicate_map:
  assumes "r \<in> set xs" and "map f xs = replicate n v"
  shows "f r = v"
proof -
  have "f r \<in> set (map f xs)" using assms(1) by simp
  then show ?thesis unfolding assms(2) by simp
qed

section \<open>The claims\<close>

text \<open>
  C1. Whenever the trimmed target is not empty and the backend call fails (network
  failure, abort by the timer, or a response that is not ok), \<open>handleScan\<close> sets
  \<open>scanResults\<close> to \<open>generateDemoResults(scanType)\<close> and records \<open>lastScanInfo\<close> with
  the scan type, the trimmed target and the time, as a completed scan does; for the three
  scan types of the form the results are then not empty. Both definitions of
  \<open>handleScan\<close> in the file do so.
\<close>

theorem failed_call_falls_back_to_demo:
  assumes "trim (target s) \<noteq> []"
  shows "(call_fails (backend e (scan_request e s)) \<longrightarrow>
            scanResults (st (snd (handleScan e s))) = generateDemoResults (scanType s)
          \<and> lastScanInfo (st (snd (handleScan e s))) =
              Some \<lparr>info_type = scanType s, info_target = trim (target s),
                info_timestamp = clock e\<rparr>
          \<and> (scanType s \<in> {''nmap'', ''nuclei'', ''nikto''} \<longrightarrow>
                scanResults (st (snd (handleScan e s))) \<noteq> []))
       \<and> (call_fails (backend e (scan_request_2 s)) \<longrightarrow>
            scanResults (st (snd (handleScan_2 e s))) = generateDemoResults (scanType s)
          \<and> lastScanInfo (st (snd (handleScan_2 e s))) =
              Some \<lparr>info_type = scanType s, info_target = trim (target s),
                info_timestamp = clock e\<rparr>
          \<and> (scanType s \<in> {''nmap'', ''nuclei'', ''nikto''} \<longrightarrow>
                scanResults (st (snd (handleScan_2 e s))) \<noteq> []))"
proof (intro conjI impI)
  assume f: "call_fails (backend e (scan_request e s))"
  show r: "scanResults (st (snd (handleScan e s))) = generateDemoResults (scanType s)"
    by (rule handleScan_failure(1) [OF assms f])
  show "lastScanInfo (st (snd (handleScan e s))) =
          Some \<lparr>info_type = scanType s, info_target = trim (target s),
            info_timestamp = clock e\<rparr>"
    by (rule handleScan_failure(2) [OF assms f])
  assume "scanType s \<in> {''nmap'', ''nuclei'', ''nikto''}"
  then show "scanResults (st (snd (handleScan e s))) \<noteq> []"
    unfolding r by (rule generateDemoResults_nonempty)
next
  assume f: "call_fails (backend e (scan_request_2 s))"
  show r: "scanResults (st (snd (handleScan_2 e s))) = generateDemoResults (scanType s)"
    by (rule handleScan_2_failure(1) [OF assms f])
  show "lastScanInfo (st (snd (handleScan_2 e s))) =
          Some \<lparr>info_type = scanType s, info_target = trim (target s),
            info_timestamp = clock e\<rparr>"
    by (rule handleScan_2_failure(2) [OF assms f])
  assume "scanType s \<in> {''nmap'', ''nuclei'', ''nikto''}"
  then show "scanResults (st (snd (handleScan_2 e s))) \<noteq> []"
    unfolding r by (rule generateDemoResults_nonempty)
qed

theorem failed_call_falls_back_to_demo_witness:
  "trim (target (initial_state\<lparr>target := ''example.com''\<rparr>)) \<noteq> []
   \<and> call_fails (backend server_error_env
        (scan_request server_error_env (initial_state\<lparr>target := ''example.com''\<rparr>)))
   \<and> call_fails (backend server_error_env
        (scan_request_2 (initial_state\<lparr>target := ''example.com''\<rparr>)))
   \<and> scanType (initial_state\<lparr>target := ''example.com''\<rparr>) \<in> {''nmap'', ''nuclei'', ''nikto''}
   \<and> scanResults (st (snd (handleScan server_error_env
        (initial_state\<lparr>target := ''example.com''\<rparr>)))) = generateDemoResults ''nmap''
   \<and> scanResults (st (snd (handleScan server_error_env
        (initial_state\<lparr>target := ''example.com''\<rparr>)))) \<noteq> []
   \<and> lastScanInfo (st (snd (handleScan server_error_env
        (initial_state\<lparr>target := ''example.com''\<rparr>)))) =
        Some \<lparr>info_type = ''nmap'', info_target = ''example.com'', info_timestamp = 0\<rparr>
   \<and> scanResults (st (snd (handleScan_2 server_error_env
        (initial_state\<lparr>target := ''example.com''\<rparr>)))) = generateDemoResults ''nmap''"
  using failed_call_falls_back_to_demo
    [of "initial_state\<lparr>target := ''example.com''\<rparr>" server_error_env]
  by (simp add: trim_eval initial_state_def server_error_env_def response_ok_def
      generateDemoResults_def)

text \<open>
  C9. \<open>generateDemoResults\<close> is a function of the scan-type string alone: a type other
  than nmap, nuclei and nikto gives the empty list, equal types give equal lists, and the
  results the catch block stores are the same for any two states with the same scan type,
  whatever their targets, surroundings and errors.
\<close>

theorem generateDemoResults_depends_on_type_only:
  "(type \<notin> {''nmap'', ''nuclei'', ''nikto''} \<longrightarrow> generateDemoResults type = [])
   \<and> (type = type' \<longrightarrow> generateDemoResults type = generateDemoResults type')
   \<and> (scanType s = scanType s' \<longrightarrow>
        scanResults (st (snd (catch_block e s err r))) =
        scanResults (st (snd (catch_block e' s' err' r'))))
   \<and> (scanType s = scanType s' \<longrightarrow>
        scanResults (st (snd (catch_block_2 e s err r))) =
        scanResults (st (snd (catch_block_2 e' s' err' r'))))"
  by (simp add: generateDemoResults_def catch_block_def catch_block_2_def
      setLastScanInfo_def setBackendConnected_def setScanResults_def)

theorem generateDemoResults_depends_on_type_only_witness:
  "''whois'' \<notin> {''nmap'', ''nuclei'', ''nikto''} \<and> generateDemoResults ''whois'' = []
   \<and> scanType (initial_state\<lparr>target := ''example.com''\<rparr>) =
       scanType (initial_state\<lparr>target := ''10.0.0.1''\<rparr>)
   \<and> scanResults (st (snd (catch_block offline_env (initial_state\<lparr>target := ''example.com''\<rparr>)
         FetchTypeError \<lparr>st = initial_state\<lparr>target := ''example.com''\<rparr>, log = []\<rparr>))) =
       scanResults (st (snd (catch_block server_error_env (initial_state\<lparr>target := ''10.0.0.1''\<rparr>)
         (HttpError 500) \<lparr>st = initial_state\<lparr>target := ''10.0.0.1''\<rparr>, log = []\<rparr>)))"
  using generateDemoResults_depends_on_type_only
    [of "''whois''" "''whois''" "initial_state\<lparr>target := ''example.com''\<rparr>"
        "initial_state\<lparr>target := ''10.0.0.1''\<rparr>" offline_env FetchTypeError
        "\<lparr>st = initial_state\<lparr>target := ''example.com''\<rparr>, log = []\<rparr>"
        server_error_env "HttpError 500"
        "\<lparr>st = initial_state\<lparr>target := ''10.0.0.1''\<rparr>, log = []\<rparr>"]
  by (simp add: initial_state_def)

text \<open>
  C10. Every run of \<open>handleScan\<close> with a non-empty trimmed target settles without
  rejection and ends with \<open>isScanning\<close> false, whatever the outcome of the call; hence
  \<open>isScanning\<close> is false after every sequence of user events.
\<close>

theorem handleScan_resets_isScanning:
  "(trim (target s) \<noteq> [] \<longrightarrow>
      fst (handleScan e s) = None \<and> \<not> isScanning (st (snd (handleScan e s))))
   \<and> \<not> isScanning (run_events es)"
  by (simp add: handleScan_resolves handleScan_not_scanning run_events_not_scanning)

theorem handleScan_resets_isScanning_witness:
  "trim (target (initial_state\<lparr>target := ''example.com'', isScanning := True\<rparr>)) \<noteq> []
   \<and> \<not> isScanning (st (snd (handleScan offline_env
          (initial_state\<lparr>target := ''example.com'', isScanning := True\<rparr>))))
   \<and> \<not> isScanning (st (snd (handleScan (answering_env (Some [finding_22]) [])
          (initial_state\<lparr>target := ''example.com'', isScanning := True\<rparr>))))
   \<and> \<not> isScanning (run_events [TargetChange ''example.com'', ScanClick offline_env])"
  using handleScan_resets_isScanning
    [of "initial_state\<lparr>target := ''example.com'', isScanning := True\<rparr>" offline_env
        "[TargetChange ''example.com'', ScanClick offline_env]"]
    handleScan_resets_isScanning
    [of "initial_state\<lparr>target := ''example.com'', isScanning := True\<rparr>"
        "answering_env (Some [finding_22]) []" "[]"]
  by (simp add: trim_eval initial_state_def)

text \<open>
  Counterexample to C3 as stated. From a state the form reaches, a response of status 200
  whose body is the JSON value null, or is not JSON at all, does not leave the results
  empty nor take them from a \<open>result\<close> property: the results are the four demo findings
  and \<open>backendConnected\<close> is false.
\<close>

theorem ok_response_without_json_object_gives_demo:
  "response_ok 200
   \<and> trim (target (run_events [TargetChange ''example.com''])) \<noteq> []
   \<and> scanResults (st (snd (handleScan null_body_env
         (run_events [TargetChange ''example.com''])))) =
       [finding_22, finding_80,
        no_fields\<lparr>port := Some ''443'', state := Some ''open'', service := Some ''https''\<rparr>,
        no_fields\<lparr>port := Some ''3306'', state := Some ''filtered'', service := Some ''mysql''\<rparr>]
   \<and> scanResults (st (snd (handleScan null_body_env
         (run_events [TargetChange ''example.com''])))) \<noteq> []
   \<and> \<not> backendConnected (st (snd (handleScan null_body_env
         (run_events [TargetChange ''example.com'']))))
   \<and> st (snd (handleScan not_json_env (run_events [TargetChange ''example.com'']))) =
       st (snd (handleScan null_body_env (run_events [TargetChange ''example.com''])))"
  by (simp add: run_defs scan_request_def null_body_env_def not_json_env_def run_events_def
      initial_state_def trim_eval response_ok_def finding_22_def finding_80_def no_fields_def
      generateDemoResults_def)

text \<open>
  C3, as the code has it. From every state the form can reach, a scan with a non-empty
  trimmed target issues exactly one request: a POST to the backend URL followed by /scan,
  with a JSON content type, whose body holds the trimmed target and the scan type, the
  latter being nmap, nuclei or nikto. A status of 200 is ok. On an ok response whose body
  is a JSON value other than null the results are its \<open>result\<close> property, or the empty
  list when that is absent. On an ok response whose body is null or is not JSON the catch
  block runs: the results are \<open>generateDemoResults(scanType)\<close>, \<open>backendConnected\<close> is
  false and \<open>lastScanInfo\<close> is recorded.
\<close>

theorem scan_submission_contract:
  assumes "s = run_events es" and "trim (target s) \<noteq> []"
  shows "requests (snd (handleScan e s)) =
           [\<lparr>req_url = BACKEND_URL (node_env e) @ ''/scan'', req_method = ''POST'',
             req_headers = [(''Content-Type'', ''application/json'')],
             req_body = [(''target'', trim (target s)), (''type'', scanType s)]\<rparr>]
         \<and> scanType s \<in> {''nmap'', ''nuclei'', ''nikto''}
         \<and> response_ok 200
         \<and> (\<forall>status res other.
               backend e (scan_request e s) = Response status (Parsed (JsonValue res other))
               \<and> response_ok status \<longrightarrow>
               scanResults (st (snd (handleScan e s))) =
                 (case res of None \<Rightarrow> [] | Some rs \<Rightarrow> rs)
               \<and> backendConnected (st (snd (handleScan e s))))
         \<and> (\<forall>status body.
               backend e (scan_request e s) = Response status body
               \<and> response_ok status \<and> (body = Unparseable \<or> body = Parsed JsonNull) \<longrightarrow>
               st (snd (handleScan e s)) =
                 s\<lparr>isScanning := False, scanResults := generateDemoResults (scanType s),
                   backendConnected := False,
                   lastScanInfo := Some \<lparr>info_type = scanType s,
                     info_target = trim (target s), info_timestamp = clock e\<rparr>\<rparr>
               \<and> scanResults (st (snd (handleScan e s))) \<noteq> [])"
proof (intro conjI allI impI)
  show "requests (snd (handleScan e s)) =
           [\<lparr>req_url = BACKEND_URL (node_env e) @ ''/scan'', req_method = ''POST'',
             req_headers = [(''Content-Type'', ''application/json'')],
             req_body = [(''target'', trim (target s)), (''type'', scanType s)]\<rparr>]"
    using assms(2) by (simp add: handleScan_requests scan_request_def)
  show known: "scanType s \<in> {''nmap'', ''nuclei'', ''nikto''}"
    unfolding assms(1) by (rule run_events_scanType)
  show "response_ok 200" by (simp add: response_ok_def)
  {
    fix status res other
    assume a: "backend e (scan_request e s) = Response status (Parsed (JsonValue res other))
            \<and> response_ok status"
    have final: "st (snd (handleScan e s)) =
           s\<lparr>isScanning := False, scanResults := (case res of None \<Rightarrow> [] | Some rs \<Rightarrow> rs),
             backendConnected := True,
             lastScanInfo := Some \<lparr>info_type = scanType s, info_target = trim (target s),
               info_timestamp = clock e\<rparr>\<rparr>"
      using a handleScan_success [OF assms(2), of e status res other] by simp
    show "scanResults (st (snd (handleScan e s))) =
               (case res of None \<Rightarrow> [] | Some rs \<Rightarrow> rs)"
      by (simp add: final)
    show "backendConnected (st (snd (handleScan e s)))"
      by (simp add: final)
  }
  {
    fix status body
    assume a: "backend e (scan_request e s) = Response status body
            \<and> response_ok status \<and> (body = Unparseable \<or> body = Parsed JsonNull)"
    show final: "st (snd (handleScan e s)) =
           s\<lparr>isScanning := False, scanResults := generateDemoResults (scanType s),
             backendConnected := False,
             lastScanInfo := Some \<lparr>info_type = scanType s, info_target = trim (target s),
               info_timestamp = clock e\<rparr>\<rparr>"
      using a handleScan_bad_body [OF assms(2), of e status body] by simp
    show "scanResults (st (snd (handleScan e s))) \<noteq> []"
      using generateDemoResults_nonempty [OF known] by (simp add: final)
  }
qed

theorem scan_submission_contract_witness:
  "trim (target (run_events [TargetChange '' example.com '', ScanTypeChange NucleiOption]))
     \<noteq> []
   \<and> requests (snd (handleScan (answering_env None [])
        (run_events [TargetChange '' example.com '', ScanTypeChange NucleiOption]))) =
       [\<lparr>req_url = ''http://localhost:5000/scan'', req_method = ''POST'',
         req_headers = [(''Content-Type'', ''application/json'')],
         req_body = [(''target'', ''example.com''), (''type'', ''nuclei'')]\<rparr>]
   \<and> scanResults (st (snd (handleScan (answering_env None [])
        (run_events [TargetChange '' example.com '', ScanTypeChange NucleiOption])))) = []
   \<and> scanResults (st (snd (handleScan (answering_env (Some [mixed_finding]) [])
        (run_events [TargetChange '' example.com '', ScanTypeChange NucleiOption])))) =
       [mixed_finding]
   \<and> backend null_body_env (scan_request null_body_env
        (run_events [TargetChange '' example.com '', ScanTypeChange NucleiOption])) =
       Response 200 (Parsed JsonNull)
   \<and> scanResults (st (snd (handleScan null_body_env
        (run_events [TargetChange '' example.com '', ScanTypeChange NucleiOption])))) =
       generateDemoResults ''nuclei''
   \<and> \<not> backendConnected (st (snd (handleScan null_body_env
        (run_events [TargetChange '' example.com '', ScanTypeChange NucleiOption]))))"
  using scan_submission_contract
    [of "run_events [TargetChange '' example.com '', ScanTypeChange NucleiOption]"
        "[TargetChange '' example.com '', ScanTypeChange NucleiOption]"
        "answering_env None []"]
    scan_submission_contract
    [of "run_events [TargetChange '' example.com '', ScanTypeChange NucleiOption]"
        "[TargetChange '' example.com '', ScanTypeChange NucleiOption]"
        "answering_env (Some [mixed_finding]) []"]
    scan_submission_contract
    [of "run_events [TargetChange '' example.com '', ScanTypeChange NucleiOption]"
        "[TargetChange '' example.com '', ScanTypeChange NucleiOption]"
        null_body_env]
  by (simp add: trim_eval run_events_def initial_state_def answering_env_def null_body_env_def
      BACKEND_URL_def response_ok_def)

text \<open>
  Counterexample to C2 as stated. A target containing the shell metacharacters \<open>;\<close>,
  \<open>|\<close>, the backquote and \<open>$\<close> is not rejected: \<open>handleScan\<close> settles without error
  and issues a scan request that carries the target unchanged.
\<close>

theorem metacharacter_target_is_submitted:
  "fst (handleScan offline_env (initial_state\<lparr>target := ''example.com;ls|cat`id`$HOME''\<rparr>)) = None
   \<and> requests (snd (handleScan offline_env
         (initial_state\<lparr>target := ''example.com;ls|cat`id`$HOME''\<rparr>))) =
       [\<lparr>req_url = ''http://localhost:5000/scan'', req_method = ''POST'',
         req_headers = [(''Content-Type'', ''application/json'')],
         req_body = [(''target'', ''example.com;ls|cat`id`$HOME''), (''type'', ''nmap'')]\<rparr>]"
  by (simp add: run_defs requests_def scan_request_def BACKEND_URL_def offline_env_def
      initial_state_def trim_eval)

text \<open>
  C2, as the code has it. The only check on the target is that its trimmed form is not
  empty, which fails exactly for the empty and the whitespace-only strings; then
  \<open>handleScan\<close> returns at once, with no request and the state untouched. Every other
  target, whatever characters it contains, is submitted in exactly one request whose body
  holds the trimmed target, and no error is raised.
\<close>

theorem only_blank_targets_are_rejected:
  "((trim (target s) = []) = (\<forall>c\<in>set (target s). is_white_space c))
   \<and> (trim (target s) = [] \<longrightarrow> handleScan e s = (None, \<lparr>st = s, log = []\<rparr>))
   \<and> (trim (target s) \<noteq> [] \<longrightarrow>
        fst (handleScan e s) = None
        \<and> requests (snd (handleScan e s)) = [scan_request e s]
        \<and> map_of (req_body (scan_request e s)) ''target'' = Some (trim (target s)))"
proof (intro conjI impI)
  show "(trim (target s) = []) = (\<forall>c\<in>set (target s). is_white_space c)"
    by (rule trim_Nil_iff)
  show "handleScan e s = (None, \<lparr>st = s, log = []\<rparr>)" if "trim (target s) = []"
    using that by (simp add: handleScan_def)
  show "fst (handleScan e s) = None" by (rule handleScan_resolves)
  show "requests (snd (handleScan e s)) = [scan_request e s]" if "trim (target s) \<noteq> []"
    using that by (rule handleScan_requests)
  show "map_of (req_body (scan_request e s)) ''target'' = Some (trim (target s))"
    by (simp add: scan_request_def)
qed

theorem only_blank_targets_are_rejected_witness:
  "trim (target (initial_state\<lparr>target := [CHR 0x20, CHR 0x09]\<rparr>)) = []
   \<and> is_white_space (CHR 0x20) \<and> is_white_space (CHR 0x09)
   \<and> handleScan offline_env (initial_state\<lparr>target := [CHR 0x20, CHR 0x09]\<rparr>) =
       (None, \<lparr>st = initial_state\<lparr>target := [CHR 0x20, CHR 0x09]\<rparr>, log = []\<rparr>)
   \<and> trim (target (initial_state\<lparr>target := '' a;b ''\<rparr>)) \<noteq> []
   \<and> requests (snd (handleScan offline_env (initial_state\<lparr>target := '' a;b ''\<rparr>))) =
       [scan_request offline_env (initial_state\<lparr>target := '' a;b ''\<rparr>)]
   \<and> map_of (req_body (scan_request offline_env (initial_state\<lparr>target := '' a;b ''\<rparr>)))
         ''target'' = Some ''a;b''"
  using only_blank_targets_are_rejected
      [of "initial_state\<lparr>target := [CHR 0x20, CHR 0x09]\<rparr>" offline_env]
    only_blank_targets_are_rejected [of "initial_state\<lparr>target := '' a;b ''\<rparr>" offline_env]
  by (simp add: trim_eval initial_state_def)

text \<open>
  Counterexample to C4 as stated. A network failure thrown in the try block does not reach the caller: the promise of
  \<open>handleScan\<close> is not rejected, four demo findings are shown, and the state and the
  toast are the same as after an HTTP 500 response.
\<close>

theorem network_error_is_swallowed:
  "fst (try_block offline_env (initial_state\<lparr>target := ''example.com''\<rparr>)
         \<lparr>st = initial_state\<lparr>target := ''example.com''\<rparr>, log = []\<rparr>) = Some FetchTypeError
   \<and> fst (handleScan offline_env (initial_state\<lparr>target := ''example.com''\<rparr>)) = None
   \<and> scanResults (st (snd (handleScan offline_env (initial_state\<lparr>target := ''example.com''\<rparr>))))
       = generateDemoResults ''nmap''
   \<and> length (scanResults (st (snd (handleScan offline_env
         (initial_state\<lparr>target := ''example.com''\<rparr>))))) = 4
   \<and> toasts (snd (handleScan offline_env (initial_state\<lparr>target := ''example.com''\<rparr>))) =
       [\<lparr>toast_title = ''Backend unavailable'',
         toast_description = ''Using demo data. Connect your backend for real scans.'',
         toast_variant = Some ''destructive''\<rparr>]
   \<and> st (snd (handleScan offline_env (initial_state\<lparr>target := ''example.com''\<rparr>))) =
       st (snd (handleScan server_error_env (initial_state\<lparr>target := ''example.com''\<rparr>)))
   \<and> toasts (snd (handleScan offline_env (initial_state\<lparr>target := ''example.com''\<rparr>))) =
       toasts (snd (handleScan server_error_env (initial_state\<lparr>target := ''example.com''\<rparr>)))"
  by (simp add: run_defs toasts_def scan_request_def offline_env_def server_error_env_def
      initial_state_def trim_eval response_ok_def generateDemoResults_def)

text \<open>
  C4, as the code has it. Whatever error the try block throws, the promise of
  \<open>handleScan\<close> is not rejected (in either definition). The error is written to the
  console, one fixed toast that names neither the kind nor the message of the error is
  shown, the results become \<open>generateDemoResults(scanType)\<close>, \<open>backendConnected\<close>
  becomes false and \<open>lastScanInfo\<close> is recorded.
\<close>

theorem every_error_is_caught_and_replaced:
  assumes "trim (target s) \<noteq> []"
    and "try_block e s (setScanResults [] (setIsScanning True \<lparr>st = s, log = []\<rparr>))
           = (Some err, r1)"
  shows "fst (handleScan e s) = None \<and> fst (handleScan_2 e s) = None
    \<and> st (snd (handleScan e s)) =
        s\<lparr>isScanning := False, scanResults := generateDemoResults (scanType s),
          backendConnected := False,
          lastScanInfo := Some \<lparr>info_type = scanType s, info_target = trim (target s),
            info_timestamp = clock e\<rparr>\<rparr>
    \<and> log (snd (handleScan e s)) =
        [Fetch (scan_request e s), ConsoleError ''Scan failed:'' err,
         Toast \<lparr>toast_title = ''Backend unavailable'',
           toast_description = ''Using demo data. Connect your backend for real scans.'',
           toast_variant = Some ''destructive''\<rparr>]"
proof -
  have r1: "r1 = \<lparr>st = s\<lparr>isScanning := True, scanResults := []\<rparr>, log = [Fetch (scan_request e s)]\<rparr>"
    using assms(2)
    by (auto simp: try_block_def Let_def emit_def setScanResults_def setIsScanning_def
        split: outcome_splits if_splits)
  show ?thesis
    using assms
    by (simp add: handleScan_def try_catch_finally_def catch_block_def r1 emit_def
        setScanResults_def setIsScanning_def setBackendConnected_def setLastScanInfo_def
        handleScan_2_resolves)
qed


theorem every_error_is_caught_and_replaced_witness:
  "trim (target (initial_state\<lparr>target := ''example.com''\<rparr>)) \<noteq> []
   \<and> try_block server_error_env (initial_state\<lparr>target := ''example.com''\<rparr>)
        (setScanResults [] (setIsScanning True
           \<lparr>st = initial_state\<lparr>target := ''example.com''\<rparr>, log = []\<rparr>)) =
       (Some (HttpError 500),
        \<lparr>st = initial_state\<lparr>target := ''example.com'', isScanning := True\<rparr>,
         log = [Fetch (scan_request server_error_env
                  (initial_state\<lparr>target := ''example.com''\<rparr>))]\<rparr>)
   \<and> fst (handleScan server_error_env (initial_state\<lparr>target := ''example.com''\<rparr>)) = None
   \<and> st (snd (handleScan server_error_env (initial_state\<lparr>target := ''example.com''\<rparr>))) =
       initial_state\<lparr>target := ''example.com'',
         scanResults := generateDemoResults ''nmap'',
         lastScanInfo := Some \<lparr>info_type = ''nmap'', info_target = ''example.com'',
           info_timestamp = 0\<rparr>\<rparr>
   \<and> log (snd (handleScan server_error_env (initial_state\<lparr>target := ''example.com''\<rparr>))) =
       [Fetch (scan_request server_error_env (initial_state\<lparr>target := ''example.com''\<rparr>)),
        ConsoleError ''Scan failed:'' (HttpError 500),
        Toast \<lparr>toast_title = ''Backend unavailable'',
          toast_description = ''Using demo data. Connect your backend for real scans.'',
          toast_variant = Some ''destructive''\<rparr>]"
proof -
  have t: "trim (target (initial_state\<lparr>target := ''example.com''\<rparr>)) \<noteq> []"
    by (simp add: trim_eval initial_state_def)
  have b: "try_block server_error_env (initial_state\<lparr>target := ''example.com''\<rparr>)
        (setScanResults [] (setIsScanning True
           \<lparr>st = initial_state\<lparr>target := ''example.com''\<rparr>, log = []\<rparr>)) =
       (Some (HttpError 500),
        \<lparr>st = initial_state\<lparr>target := ''example.com'', isScanning := True\<rparr>,
         log = [Fetch (scan_request server_error_env
                  (initial_state\<lparr>target := ''example.com''\<rparr>))]\<rparr>)"
    by (simp add: try_block_def Let_def emit_def setScanResults_def setIsScanning_def
        server_error_env_def response_ok_def initial_state_def)
  show ?thesis
    using t b every_error_is_caught_and_replaced [OF t b]
    by (simp add: initial_state_def server_error_env_def trim_eval)
qed

text \<open>
  Counterexample to C5 as stated. The target \<open>" Example.COM "\<close> is submitted as \<open>"Example.COM"\<close>, which is not the
  trimmed and lower-cased form \<open>"example.com"\<close>.
\<close>

theorem submitted_target_keeps_case:
  "requests (snd (handleScan offline_env (initial_state\<lparr>target := '' Example.COM ''\<rparr>))) =
     [\<lparr>req_url = ''http://localhost:5000/scan'', req_method = ''POST'',
       req_headers = [(''Content-Type'', ''application/json'')],
       req_body = [(''target'', ''Example.COM''), (''type'', ''nmap'')]\<rparr>]
   \<and> spec_normalize '' Example.COM '' = ''example.com''
   \<and> ''Example.COM'' \<noteq> spec_normalize '' Example.COM ''"
proof -
  have "spec_normalize '' Example.COM '' = ''example.com''"
    by code_simp
  then show ?thesis
    by (simp add: run_defs requests_def scan_request_def BACKEND_URL_def offline_env_def
        initial_state_def trim_eval)
qed

text \<open>
  C5, as the code has it. For every target whose trimmed form is not empty, the target
  submitted and the target recorded in \<open>lastScanInfo\<close> are the raw input trimmed of
  surrounding whitespace, with the case of its letters kept; trimming a trimmed target
  changes nothing, so submitting the trimmed form issues the same request.
\<close>

theorem submitted_target_is_trimmed:
  assumes "trim (target s) \<noteq> []"
  shows "map (\<lambda>q. map_of (req_body q) ''target'') (requests (snd (handleScan e s))) =
           [Some (trim (target s))]
    \<and> map_option info_target (lastScanInfo (st (snd (handleScan e s)))) =
        Some (trim (target s))
    \<and> trim (trim (target s)) = trim (target s)
    \<and> requests (snd (handleScan e (s\<lparr>target := trim (target s)\<rparr>))) =
        requests (snd (handleScan e s))"
proof (intro conjI)
  show "map (\<lambda>q. map_of (req_body q) ''target'') (requests (snd (handleScan e s))) =
           [Some (trim (target s))]"
    using assms by (simp add: handleScan_requests scan_request_def)
  show "map_option info_target (lastScanInfo (st (snd (handleScan e s)))) =
        Some (trim (target s))"
    using assms by (simp add: run_defs Let_def split: outcome_splits)
  show "trim (trim (target s)) = trim (target s)" by (rule trim_idem)
  have "trim (target (s\<lparr>target := trim (target s)\<rparr>)) \<noteq> []"
    using assms by (simp add: trim_idem)
  then have "requests (snd (handleScan e (s\<lparr>target := trim (target s)\<rparr>))) =
        [scan_request e (s\<lparr>target := trim (target s)\<rparr>)]"
    by (rule handleScan_requests)
  then show "requests (snd (handleScan e (s\<lparr>target := trim (target s)\<rparr>))) =
        requests (snd (handleScan e s))"
    using assms by (simp add: handleScan_requests scan_request_def trim_idem)
qed

theorem submitted_target_is_trimmed_witness:
  "trim (target (initial_state\<lparr>target := '' Example.COM ''\<rparr>)) \<noteq> []
   \<and> map (\<lambda>q. map_of (req_body q) ''target'')
        (requests (snd (handleScan offline_env (initial_state\<lparr>target := '' Example.COM ''\<rparr>))))
       = [Some ''Example.COM'']
   \<and> trim (trim '' Example.COM '') = ''Example.COM''"
  using submitted_target_is_trimmed [of "initial_state\<lparr>target := '' Example.COM ''\<rparr>" offline_env]
  by (simp add: trim_eval initial_state_def)

text \<open>
  Counterexample to C6 as stated. During a port scan, a finding from the backend that populates \<open>port\<close> and \<open>title\<close>
  is stored as it is: the one record type admits it and nothing checks it.
\<close>

theorem backend_finding_mixes_shapes:
  "scanType (initial_state\<lparr>target := ''example.com''\<rparr>) = ''nmap''
   \<and> scanResults (st (snd (handleScan (answering_env (Some [mixed_finding]) [])
        (initial_state\<lparr>target := ''example.com''\<rparr>)))) = [mixed_finding]
   \<and> populated mixed_finding = {Port, Title}
   \<and> \<not> populated mixed_finding \<subseteq> {Port, State, Service}"
proof -
  have p: "populated mixed_finding = {Port, Title}"
    by (simp add: populated_def mixed_finding_def no_fields_def insert_commute)
  have n: "\<not> {Port, Title} \<subseteq> {Port, State, Service}"
    by simp
  have r: "scanResults (st (snd (handleScan (answering_env (Some [mixed_finding]) [])
        (initial_state\<lparr>target := ''example.com''\<rparr>)))) = [mixed_finding]"
    by (simp add: run_defs answering_env_def initial_state_def trim_eval response_ok_def)
  show ?thesis
    unfolding p using n r by (simp add: initial_state_def)
qed

text \<open>
  C6, as the code has it. Every record of \<open>generateDemoResults\<close> populates exactly the
  fields of its scan type: port, state and service for nmap; title, severity, url and
  description for nuclei; endpoint and description for nikto.
\<close>

theorem demo_findings_have_one_shape:
  assumes "r \<in> set (generateDemoResults type)"
  shows "(type = ''nmap'' \<and> populated r = {Port, State, Service})
       \<or> (type = ''nuclei'' \<and> populated r = {Title, Severity, Url, Description})
       \<or> (type = ''nikto'' \<and> populated r = {Endpoint, Description})"
proof -
  have "type = ''nmap'' \<or> type = ''nuclei'' \<or> type = ''nikto''"
    using assms generateDemoResults_other [of type] by fastforce
  then consider "type = ''nmap''" | "type = ''nuclei''" | "type = ''nikto''"
    by blast
  then show ?thesis
  proof cases
    case 1
    with assms have "populated r = {Service, State, Port}"
      by (simp add: in_replicate_map [OF _ populated_nmap])
    then have "populated r = {Port, State, Service}"
      by (simp add: insert_commute)
    with 1 show ?thesis by simp
  next
    case 2
    with assms have "populated r = {Title, Description, Url, Severity}"
      by (simp add: in_replicate_map [OF _ populated_nuclei])
    then have "populated r = {Title, Severity, Url, Description}"
      by (simp add: insert_commute)
    with 2 show ?thesis by simp
  next
    case 3
    with assms have "populated r = {Endpoint, Description}"
      by (simp add: in_replicate_map [OF _ populated_nikto])
    with 3 show ?thesis by simp
  qed
qed

theorem demo_findings_have_one_shape_witness:
  "finding_22 \<in> set (generateDemoResults ''nmap'')
   \<and> populated finding_22 = {Port, State, Service}"
  using demo_findings_have_one_shape [of finding_22 "''nmap''"]
  by (simp add: generateDemoResults_def finding_22_def)

text \<open>
  Counterexample to C7 as stated. Two responses to the port scan of example.com that differ only in a
  \<open>toolExitCode\<close> property lead to the same outcome; \<open>lastScanInfo\<close> holds the type, the
  target and the time; the ports are the strings \<open>"22"\<close> and \<open>"80"\<close>; and without a
  backend the same scan shows the four demo findings.
\<close>

theorem exit_code_is_not_recorded:
  "handleScan (answering_env (Some [finding_22, finding_80]) [(''toolExitCode'', ''0'')])
     (initial_state\<lparr>target := ''example.com''\<rparr>) =
   handleScan (answering_env (Some [finding_22, finding_80]) [(''toolExitCode'', ''1'')])
     (initial_state\<lparr>target := ''example.com''\<rparr>)
   \<and> lastScanInfo (st (snd (handleScan
         (answering_env (Some [finding_22, finding_80]) [(''toolExitCode'', ''0'')])
         (initial_state\<lparr>target := ''example.com''\<rparr>)))) =
       Some \<lparr>info_type = ''nmap'', info_target = ''example.com'', info_timestamp = 0\<rparr>
   \<and> map port (scanResults (st (snd (handleScan
         (answering_env (Some [finding_22, finding_80]) [(''toolExitCode'', ''0'')])
         (initial_state\<lparr>target := ''example.com''\<rparr>))))) = [Some ''22'', Some ''80'']
   \<and> scanResults (st (snd (handleScan offline_env (initial_state\<lparr>target := ''example.com''\<rparr>))))
       = [finding_22, finding_80,
          no_fields\<lparr>port := Some ''443'', state := Some ''open'', service := Some ''https''\<rparr>,
          no_fields\<lparr>port := Some ''3306'', state := Some ''filtered'',
            service := Some ''mysql''\<rparr>]"
  by (simp add: run_defs scan_request_def answering_env_def offline_env_def initial_state_def
      trim_eval response_ok_def finding_22_def finding_80_def no_fields_def
      generateDemoResults_def)

text \<open>
  C7, as the code has it. A scan of example.com with type nmap, answered with status 200
  and the findings 22/open/ssh and 80/open/http, issues one request with that target and
  type and ends with exactly these two findings in the order received, their port, state
  and service being the strings sent; \<open>lastScanInfo\<close> records the type, the target and
  the time, and nothing else of the response is kept.
\<close>

theorem port_scan_end_to_end:
  assumes "target s = ''example.com''" and "scanType s = ''nmap''"
    and "backend e (scan_request e s) =
           Response 200 (Parsed (JsonValue (Some [finding_22, finding_80]) other))"
  shows "requests (snd (handleScan e s)) =
           [\<lparr>req_url = BACKEND_URL (node_env e) @ ''/scan'', req_method = ''POST'',
             req_headers = [(''Content-Type'', ''application/json'')],
             req_body = [(''target'', ''example.com''), (''type'', ''nmap'')]\<rparr>]
    \<and> st (snd (handleScan e s)) =
        s\<lparr>isScanning := False, scanResults := [finding_22, finding_80],
          backendConnected := True,
          lastScanInfo := Some \<lparr>info_type = ''nmap'', info_target = ''example.com'',
            info_timestamp = clock e\<rparr>\<rparr>
    \<and> map port [finding_22, finding_80] = [Some ''22'', Some ''80'']
    \<and> map state [finding_22, finding_80] = [Some ''open'', Some ''open'']
    \<and> map service [finding_22, finding_80] = [Some ''ssh'', Some ''http'']"
proof -
  have t: "trim (target s) = ''example.com''"
    by (simp add: assms(1) trim_eval)
  then have ne: "trim (target s) \<noteq> []" by simp
  have ok: "response_ok 200" by (simp add: response_ok_def)
  have "requests (snd (handleScan e s)) = [scan_request e s]"
    using ne by (rule handleScan_requests)
  moreover have "st (snd (handleScan e s)) =
        s\<lparr>isScanning := False, scanResults := [finding_22, finding_80],
          backendConnected := True,
          lastScanInfo := Some \<lparr>info_type = ''nmap'', info_target = ''example.com'',
            info_timestamp = clock e\<rparr>\<rparr>"
    using handleScan_success [OF ne assms(3) ok] by (simp add: t assms(2))
  ultimately show ?thesis
    by (simp add: scan_request_def t assms(2) finding_22_def finding_80_def no_fields_def)
qed

theorem port_scan_end_to_end_witness:
  "target (initial_state\<lparr>target := ''example.com''\<rparr>) = ''example.com''
   \<and> scanType (initial_state\<lparr>target := ''example.com''\<rparr>) = ''nmap''
   \<and> backend (answering_env (Some [finding_22, finding_80]) [(''toolExitCode'', ''0'')])
        (scan_request (answering_env (Some [finding_22, finding_80]) [(''toolExitCode'', ''0'')])
           (initial_state\<lparr>target := ''example.com''\<rparr>)) =
       Response 200 (Parsed (JsonValue (Some [finding_22, finding_80]) [(''toolExitCode'', ''0'')]))
   \<and> scanResults (st (snd (handleScan
        (answering_env (Some [finding_22, finding_80]) [(''toolExitCode'', ''0'')])
        (initial_state\<lparr>target := ''example.com''\<rparr>)))) = [finding_22, finding_80]
   \<and> lastScanInfo (st (snd (handleScan
        (answering_env (Some [finding_22, finding_80]) [(''toolExitCode'', ''0'')])
        (initial_state\<lparr>target := ''example.com''\<rparr>)))) =
       Some \<lparr>info_type = ''nmap'', info_target = ''example.com'', info_timestamp = 0\<rparr>"
  using port_scan_end_to_end
    [of "initial_state\<lparr>target := ''example.com''\<rparr>"
        "answering_env (Some [finding_22, finding_80]) [(''toolExitCode'', ''0'')]"
        "[(''toolExitCode'', ''0'')]"]
  by (simp add: initial_state_def answering_env_def)

text \<open>
  Counterexample to C8 as stated. A finding without severity gets the gray badge class, a finding with severity
  \<open>low\<close> the blue one.
\<close>

theorem missing_severity_is_not_low:
  "severity_badge_class (no_fields\<lparr>title := Some ''Missing Security Headers''\<rparr>) =
     ''bg-gray-500/20 text-gray-300 border-gray-500/30''
   \<and> severity_badge_class
       (no_fields\<lparr>title := Some ''Missing Security Headers'', severity := Some ''low''\<rparr>) =
     ''bg-blue-500/20 text-blue-300 border-blue-500/30''
   \<and> severity_badge_class (no_fields\<lparr>title := Some ''Missing Security Headers''\<rparr>) \<noteq>
     severity_badge_class
       (no_fields\<lparr>title := Some ''Missing Security Headers'', severity := Some ''low''\<rparr>)"
  by (simp add: severity_badge_class_def getSeverityColor_def no_fields_def)

text \<open>
  C8, as the code has it. A finding whose severity is missing raises no error: its badge
  gets the default class, the one of any unrecognised severity string, its badge text is
  absent, and its class differs from the class of each of the four declared severities,
  \<open>low\<close> included.
\<close>

theorem missing_severity_gets_default_style:
  assumes "severity r = None"
  shows "severity_badge_class r = ''bg-gray-500/20 text-gray-300 border-gray-500/30''
    \<and> severity_badge_class r = getSeverityColor ''unknown''
    \<and> severity_badge_text r = None
    \<and> (\<forall>sev\<in>set declared_severities.
          severity_badge_class r \<noteq> severity_badge_class (r\<lparr>severity := Some sev\<rparr>))"
  using assms
  by (simp add: severity_badge_class_def severity_badge_text_def getSeverityColor_def
      declared_severities_def)

theorem missing_severity_gets_default_style_witness:
  "severity (no_fields\<lparr>title := Some ''Missing Security Headers''\<rparr>) = None
   \<and> ''low'' \<in> set declared_severities
   \<and> severity_badge_class (no_fields\<lparr>title := Some ''Missing Security Headers''\<rparr>) =
       ''bg-gray-500/20 text-gray-300 border-gray-500/30''
   \<and> severity_badge_class (no_fields\<lparr>title := Some ''Missing Security Headers''\<rparr>) \<noteq>
       severity_badge_class
         (no_fields\<lparr>title := Some ''Missing Security Headers'', severity := Some ''low''\<rparr>)"
  using missing_severity_gets_default_style
    [of "no_fields\<lparr>title := Some ''Missing Security Headers''\<rparr>"]
  by (simp add: no_fields_def declared_severities_def severity_badge_class_def
      getSeverityColor_def)

end
